theory Spec2Isabelle
  imports Main
begin

section \<open>Data model\<close>

text \<open>
  The server (\<^verbatim>\<open>src/server/server.js\<close>) keeps three pieces of state: one JSON file per
  chat room holding the room's messages, one JSON file holding all class requests keyed
  by id, and the in-memory object \<^verbatim>\<open>activeRooms\<close>. JavaScript objects are untyped; the
  fields of messages, participants and class requests carry the types of the
  specification's data model (section 3), and the parameters of a request (room, id,
  author, creator) are strings.

  Modelling conventions, stated once:
  \<^item> every handler of the source is synchronous; it is a function from the state it reads
    to its reply and the state it leaves;
  \<^item> \<^verbatim>\<open>Date.now()\<close>, \<^verbatim>\<open>new Date().toISOString()\<close> and \<^verbatim>\<open>Math.random().toString(36)\<close> are
    inputs of the handler that reads them;
  \<^item> an exception that leaves a handler is a value: a route handler of Express then
    answers 500 (\<open>Uncaught\<close>), a handler of a socket event ends the process (\<open>Inl\<close>);
  \<^item> a plain object used as a dictionary (\<^verbatim>\<open>requests\<close>, \<^verbatim>\<open>activeRooms\<close>) holds its own
    properties and inherits those of \<^verbatim>\<open>Object.prototype\<close>; \<^verbatim>\<open>obj[key]\<close> finds both;
  \<^item> the chat files live in a file system of directories and files addressed by
    absolute paths, with the path arithmetic of \<^verbatim>\<open>path.join\<close> on POSIX; what the
    operating system adds of its own (permissions, a full disk, a limit on the length
    of a name) is left out;
  \<^item> \<^verbatim>\<open>JSON.parse (JSON.stringify v)\<close> is \<open>v\<close> for the typed values below;
  \<^item> broadcasts (\<^verbatim>\<open>io.to(room).emit\<close>) change no state and are left out, except that the
    reply of a handler is the value it sends back to its caller.
\<close>

record message =
  id_msg :: "string option"
  room_msg :: string
  author :: string
  body :: string

record participant =
  studentId :: string
  fullName :: string
  class_p :: string

record class_request =
  id_req :: string
  room_req :: string
  creatorName :: string
  creatorStudentId :: string
  creatorClass :: string
  participants :: "participant list"
  participantCount :: nat
  createdAt :: string
  extra :: "(string \<times> string) list"

text \<open>
  The exceptions the handlers can raise: a \<^verbatim>\<open>TypeError\<close> (a call of a method a value does
  not have), the \<^verbatim>\<open>SyntaxError\<close> of \<^verbatim>\<open>JSON.parse\<close>, and an error of \<^verbatim>\<open>fs\<close>
  (\<^verbatim>\<open>ENOENT\<close>, \<^verbatim>\<open>ENOTDIR\<close>, \<^verbatim>\<open>EISDIR\<close>).
\<close>

datatype exn = TypeError | SyntaxError | FsError

text \<open>
  A reply of the HTTP layer: \<^verbatim>\<open>res.status(c).json(v)\<close> is \<open>Ok c v\<close> for a success and
  \<^verbatim>\<open>res.status(c).json({ error: s })\<close> is \<open>Err c s\<close>; \<open>Uncaught e\<close> is the answer 500 of
  Express to a handler that threw \<open>e\<close>. The specification's errors are the statuses:
  NotFoundError is 404, AuthorizationError is 403, ConflictError is 400.
\<close>

datatype 'a response = Ok nat 'a | Err nat string | Uncaught exn

type_synonym request_table = "string \<rightharpoonup> class_request"

section \<open>Plain objects as dictionaries\<close>

text \<open>
  \<^verbatim>\<open>obj[key]\<close> on a plain object (an object literal, or an object made by \<^verbatim>\<open>JSON.parse\<close>):
  an own property if there is one, else the member of \<^verbatim>\<open>Object.prototype\<close> of that name
  (a function, or the prototype itself for \<^verbatim>\<open>__proto__\<close>: truthy, and without any of the
  fields or methods the handlers ask of it), else \<^verbatim>\<open>undefined\<close>.
\<close>

definition object_prototype_names :: "string list" where
  "object_prototype_names =
     [''constructor'', ''__proto__'', ''hasOwnProperty'', ''isPrototypeOf'',
      ''propertyIsEnumerable'', ''toLocaleString'', ''toString'', ''valueOf'',
      ''__defineGetter__'', ''__defineSetter__'', ''__lookupGetter__'', ''__lookupSetter__'']"

datatype 'a property = Own 'a | Inherited | Undefined

definition get_prop :: "(string \<rightharpoonup> 'a) \<Rightarrow> string \<Rightarrow> 'a property" where
  "get_prop obj k =
     (case obj k of
        Some v \<Rightarrow> Own v
      | None \<Rightarrow> if k \<in> set object_prototype_names then Inherited else Undefined)"

section \<open>The file system\<close>

text \<open>
  A path is the list of its segments from the root. A node is a directory, a file whose
  text is JSON, or a file whose text is not. A JSON text is an array of messages or
  some other JSON value, such as the object in \<^verbatim>\<open>class_requests.json\<close>. \<open>dirname\<close> is
  \<^verbatim>\<open>__dirname\<close>, the directory of \<^verbatim>\<open>server.js\<close>.
\<close>

datatype json_value = Array "message list" | Other_json

datatype node = Directory | File_json json_value | File_text

record disk =
  dirname :: "string list"
  nodes :: "string list \<rightharpoonup> node"

text \<open>
  \<^verbatim>\<open>path.join(base, rel)\<close> for a normalised absolute \<open>base\<close>: \<open>rel\<close> is cut at every
  slash; an empty segment and \<^verbatim>\<open>.\<close> are dropped, \<^verbatim>\<open>..\<close> drops the segment before it and
  stays at the root when there is none.
\<close>

fun split_path :: "string \<Rightarrow> string list" where
  "split_path [] = [[]]"
| "split_path (c # cs) =
     (if c = CHR ''/'' then [] # split_path cs
      else (case split_path cs of
              [] \<Rightarrow> [[c]]
            | seg # segs \<Rightarrow> (c # seg) # segs))"

fun normalize :: "string list \<Rightarrow> string list \<Rightarrow> string list" where
  "normalize base [] = base"
| "normalize base (seg # segs) =
     (if seg = [] \<or> seg = ''.'' then normalize base segs
      else if seg = ''..'' then normalize (butlast base) segs
      else normalize (base @ [seg]) segs)"

definition path_join :: "string list \<Rightarrow> string \<Rightarrow> string list" where
  "path_join base rel = normalize base (split_path rel)"

text \<open>Lines 21, 22 and 35.\<close>

definition CHAT_STORAGE_PATH :: "disk \<Rightarrow> string list" where
  "CHAT_STORAGE_PATH d = path_join (dirname d) ''chat_storage''"

definition CLASS_REQUESTS_PATH :: "disk \<Rightarrow> string list" where
  "CLASS_REQUESTS_PATH d = path_join (dirname d) ''class_requests.json''"

definition getChatFilePath :: "disk \<Rightarrow> string \<Rightarrow> string list" where
  "getChatFilePath d room = path_join (CHAT_STORAGE_PATH d) (room @ ''.json'')"

text \<open>
  Node refuses a path with a NUL character before it calls the operating system:
  \<^verbatim>\<open>fs.existsSync\<close> then answers false, reading and writing throw a \<^verbatim>\<open>TypeError\<close>.
\<close>

definition valid_path :: "string list \<Rightarrow> bool" where
  "valid_path p \<longleftrightarrow> \<not> list_ex (\<lambda>seg. CHR 0x00 \<in> set seg) p"

text \<open>
  \<^verbatim>\<open>fs.existsSync\<close>; \<^verbatim>\<open>JSON.parse(fs.readFileSync(p, "utf8"))\<close>, which throws on a directory,
  on a missing file and on a text that is not JSON; \<^verbatim>\<open>fs.writeFileSync(p, JSON.stringify(v))\<close>,
  which replaces a file, creates one in a directory that exists, and throws on a
  directory and where the parent is missing or is a file.
\<close>

definition existsSync :: "disk \<Rightarrow> string list \<Rightarrow> bool" where
  "existsSync d p \<longleftrightarrow> valid_path p \<and> nodes d p \<noteq> None"

definition readJson :: "disk \<Rightarrow> string list \<Rightarrow> exn + json_value" where
  "readJson d p =
     (if \<not> valid_path p then Inl TypeError
      else case nodes d p of
             None \<Rightarrow> Inl FsError
           | Some Directory \<Rightarrow> Inl FsError
           | Some File_text \<Rightarrow> Inl SyntaxError
           | Some (File_json v) \<Rightarrow> Inr v)"

definition writeFileSync :: "disk \<Rightarrow> string list \<Rightarrow> json_value \<Rightarrow> exn + disk" where
  "writeFileSync d p v =
     (if \<not> valid_path p then Inl TypeError
      else case nodes d p of
             Some Directory \<Rightarrow> Inl FsError
           | Some (File_json _) \<Rightarrow> Inr (d\<lparr>nodes := (nodes d)(p \<mapsto> File_json v)\<rparr>)
           | Some File_text \<Rightarrow> Inr (d\<lparr>nodes := (nodes d)(p \<mapsto> File_json v)\<rparr>)
           | None \<Rightarrow>
               (case nodes d (butlast p) of
                  Some Directory \<Rightarrow> Inr (d\<lparr>nodes := (nodes d)(p \<mapsto> File_json v)\<rparr>)
                | Some (File_json _) \<Rightarrow> Inl FsError
                | Some File_text \<Rightarrow> Inl FsError
                | None \<Rightarrow> Inl FsError))"

section \<open>Storage helpers\<close>

text \<open>
  Lines 38 to 59. \<^verbatim>\<open>loadChatHistory\<close> answers the parsed file, or the empty array when
  there is no file. \<^verbatim>\<open>saveChatMessage\<close> reads the file, pushes the message (a value that
  is not an array has no \<^verbatim>\<open>push\<close>) and writes the file back.
\<close>

definition loadChatHistory :: "disk \<Rightarrow> string \<Rightarrow> exn + json_value" where
  "loadChatHistory d room =
     (let filePath = getChatFilePath d room
      in if existsSync d filePath then readJson d filePath else Inr (Array []))"

definition saveChatHistory :: "disk \<Rightarrow> string \<Rightarrow> message list \<Rightarrow> exn + disk" where
  "saveChatHistory d room messages = writeFileSync d (getChatFilePath d room) (Array messages)"

definition saveChatMessage :: "disk \<Rightarrow> string \<Rightarrow> message \<Rightarrow> exn + disk" where
  "saveChatMessage d room msg =
     (let filePath = getChatFilePath d room
      in case loadChatHistory d room of
           Inl e \<Rightarrow> Inl e
         | Inr Other_json \<Rightarrow> Inl TypeError
         | Inr (Array history) \<Rightarrow> writeFileSync d filePath (Array (history @ [msg])))"

text \<open>
  Lines 61 to 73. The class requests file is created at start-up holding the empty
  object and is written by \<^verbatim>\<open>saveClassRequests\<close> only: the chat handlers write a file
  only after they have found an array in it or no file at its path. So the table
  itself is the state of the class request handlers; \<^verbatim>\<open>loadClassRequests\<close> and
  \<^verbatim>\<open>saveClassRequests\<close> read and replace it.
\<close>

section \<open>Chat over HTTP\<close>

text \<open>\<^verbatim>\<open>GET /api/chat/:room\<close>, lines 76 to 80: the specification's \<open>getHistory\<close>.\<close>

definition get_chat :: "disk \<Rightarrow> string \<Rightarrow> json_value response" where
  "get_chat d room =
     (case loadChatHistory d room of
        Inl e \<Rightarrow> Uncaught e
      | Inr history \<Rightarrow> Ok 200 history)"

text \<open>
  \<^verbatim>\<open>DELETE /api/chat/:room/:messageId?author=...\<close>, lines 83 to 104: the specification's
  \<open>deleteMessage\<close>. The filter keeps a message when its id differs from \<open>messageId\<close> or its
  author differs from \<open>author\<close>; the file is written only when the filter dropped
  something. A value that is not an array has no \<^verbatim>\<open>filter\<close>.
\<close>

definition keeps :: "string \<Rightarrow> string \<Rightarrow> message \<Rightarrow> bool" where
  "keeps messageId author' msg \<longleftrightarrow> id_msg msg \<noteq> Some messageId \<or> author msg \<noteq> author'"

definition delete_chat_message ::
  "disk \<Rightarrow> string \<Rightarrow> string \<Rightarrow> string \<Rightarrow> unit response \<times> disk" where
  "delete_chat_message d room messageId author' =
     (case loadChatHistory d room of
        Inl e \<Rightarrow> (Uncaught e, d)
      | Inr Other_json \<Rightarrow> (Uncaught TypeError, d)
      | Inr (Array history) \<Rightarrow>
          (let updatedHistory = filter (keeps messageId author') history
           in if length history = length updatedHistory
              then (Err 403 ''You can only delete your own messages'', d)
              else (case saveChatHistory d room updatedHistory of
                      Inl e \<Rightarrow> (Uncaught e, d)
                    | Inr d' \<Rightarrow> (Ok 200 (), d'))))"

section \<open>Class requests over HTTP\<close>

text \<open>\<^verbatim>\<open>Date.now().toString()\<close>: the decimal digits of a natural number.\<close>

definition digit :: "nat \<Rightarrow> char" where
  "digit d = ''0123456789'' ! d"

fun toString :: "nat \<Rightarrow> string" where
  "toString n = (if n < 10 then [digit n] else toString (n div 10) @ [digit (n mod 10)])"

declare toString.simps [simp del]

text \<open>
  \<^verbatim>\<open>POST /api/class-request\<close>, lines 107 to 132: the specification's \<open>create\<close>. The body of
  the request is the record itself; the handler overwrites its id, participants,
  participantCount and createdAt, whatever the client sent there. \<open>now\<close> is \<^verbatim>\<open>Date.now()\<close>
  and \<open>isoNow\<close> is \<^verbatim>\<open>new Date().toISOString()\<close>.
\<close>

definition post_class_request ::
  "request_table \<Rightarrow> nat \<Rightarrow> string \<Rightarrow> class_request \<Rightarrow> class_request response \<times> request_table" where
  "post_class_request requests now isoNow requestData =
     (let requestId = toString now;
          requestData' = requestData
            \<lparr>id_req := requestId,
             participants := [\<lparr>studentId = creatorStudentId requestData,
                               fullName = creatorName requestData,
                               class_p = creatorClass requestData\<rparr>],
             participantCount := 1,
             createdAt := isoNow\<rparr>
      in (Ok 201 requestData', requests(requestId \<mapsto> requestData')))"

text \<open>
  \<^verbatim>\<open>DELETE /api/class-request/:id?creator=...\<close>, lines 135 to 160: the specification's
  \<open>delete\<close>. For an id that names a member of \<^verbatim>\<open>Object.prototype\<close> the test of line 140
  passes; the member has no \<^verbatim>\<open>creatorName\<close>, and \<^verbatim>\<open>undefined\<close> differs from every string.
\<close>

definition delete_class_request ::
  "request_table \<Rightarrow> string \<Rightarrow> string \<Rightarrow> unit response \<times> request_table" where
  "delete_class_request requests i creator =
     (case get_prop requests i of
        Undefined \<Rightarrow> (Err 404 ''Class request not found'', requests)
      | Inherited \<Rightarrow> (Err 403 ''You can only delete your own class requests'', requests)
      | Own r \<Rightarrow>
          if creatorName r \<noteq> creator
          then (Err 403 ''You can only delete your own class requests'', requests)
          else (Ok 200 (), requests(i := None)))"

text \<open>
  \<^verbatim>\<open>POST /api/class-request/:id/join\<close>, lines 163 to 190: the specification's \<open>join\<close>.
  For an id that names a member of \<^verbatim>\<open>Object.prototype\<close> the test of line 168 passes; the
  member has no \<^verbatim>\<open>participants\<close>, so \<^verbatim>\<open>.some\<close> on line 173 throws.
\<close>

definition post_class_request_join ::
  "request_table \<Rightarrow> string \<Rightarrow> participant \<Rightarrow> class_request response \<times> request_table" where
  "post_class_request_join requests i participantData =
     (case get_prop requests i of
        Undefined \<Rightarrow> (Err 404 ''Class request not found'', requests)
      | Inherited \<Rightarrow> (Uncaught TypeError, requests)
      | Own r \<Rightarrow>
          let alreadyJoined =
                list_ex (\<lambda>p. studentId p = studentId participantData) (participants r)
          in if alreadyJoined
             then (Err 400 ''You have already joined this class request'', requests)
             else (let ps = participants r @ [participantData];
                       r' = r\<lparr>participants := ps, participantCount := length ps\<rparr>
                   in (Ok 200 r', requests(i \<mapsto> r'))))"

text \<open>
  A sequence of requests to the three handlers that write the table, run from left to
  right; each step keeps the table the handler leaves.
\<close>

datatype request_op =
    Create class_request nat string
  | Join string participant
  | Delete string string

fun apply_request_op :: "request_table \<Rightarrow> request_op \<Rightarrow> request_table" where
  "apply_request_op requests (Create requestData now isoNow) =
     snd (post_class_request requests now isoNow requestData)"
| "apply_request_op requests (Join i participantData) =
     snd (post_class_request_join requests i participantData)"
| "apply_request_op requests (Delete i creator) =
     snd (delete_class_request requests i creator)"

definition run_request_ops :: "request_table \<Rightarrow> request_op list \<Rightarrow> request_table" where
  "run_request_ops requests ops = foldl apply_request_op requests ops"

text \<open>The participant the handler of create builds from the creator fields of a record.\<close>

definition creator_participant :: "class_request \<Rightarrow> participant" where
  "creator_participant r =
     \<lparr>studentId = creatorStudentId r, fullName = creatorName r, class_p = creatorClass r\<rparr>"

text \<open>The three properties the specification asks of every stored class request.\<close>

definition request_ok :: "class_request \<Rightarrow> bool" where
  "request_ok r \<longleftrightarrow>
     participantCount r = length (participants r)
     \<and> creator_participant r \<in> set (participants r)
     \<and> distinct (map studentId (participants r))"

section \<open>Room registry\<close>

text \<open>
  \<open>activeRooms\<close> is the object of line 220, a set of socket ids per room name.
  \<open>currentRoom\<close> holds the property \<^verbatim>\<open>socket.currentRoom\<close> of every socket.
  \<open>rooms_io\<close> is the room membership Socket.IO itself keeps and broadcasts to
  (\<^verbatim>\<open>io.to(room)\<close>): a socket that connects is put in the room named by its own id,
  \<^verbatim>\<open>socket.join(room)\<close> adds the socket to the room and leaves its other rooms as they
  are, and when a socket disconnects Socket.IO takes it out of all its rooms.
\<close>

record registry =
  activeRooms :: "string \<rightharpoonup> string set"
  currentRoom :: "string \<rightharpoonup> string"
  rooms_io :: "string \<Rightarrow> string set"

definition registry_init :: registry where
  "registry_init = \<lparr>activeRooms = Map.empty, currentRoom = Map.empty, rooms_io = (\<lambda>_. {})\<rparr>"

text \<open>\<^verbatim>\<open>io.on("connection", ...)\<close>, line 222: the handler only registers the handlers below.\<close>

definition connection :: "string \<Rightarrow> registry \<Rightarrow> registry" where
  "connection sid st = st\<lparr>rooms_io := (rooms_io st)(sid := insert sid (rooms_io st sid))\<rparr>"

text \<open>
  \<^verbatim>\<open>socket.on("join_room", ...)\<close>, lines 225 to 243. The reply is the history sent to the
  socket as \<^verbatim>\<open>chat_history\<close>. For a room that names a member of \<^verbatim>\<open>Object.prototype\<close> the
  test of line 232 finds the member, which has no \<^verbatim>\<open>add\<close>.
\<close>

definition join_room ::
  "disk \<Rightarrow> string \<Rightarrow> string \<Rightarrow> registry \<Rightarrow> exn + json_value \<times> registry" where
  "join_room d sid room st =
     (let st1 = st\<lparr>rooms_io := (rooms_io st)(room := insert sid (rooms_io st room)),
                   currentRoom := (currentRoom st)(sid \<mapsto> room)\<rparr>
      in case get_prop (activeRooms st1) room of
           Inherited \<Rightarrow> Inl TypeError
         | Undefined \<Rightarrow>
             (case loadChatHistory d room of
                Inl e \<Rightarrow> Inl e
              | Inr history \<Rightarrow>
                  Inr (history, st1\<lparr>activeRooms := (activeRooms st1)(room \<mapsto> {sid})\<rparr>))
         | Own members \<Rightarrow>
             (case loadChatHistory d room of
                Inl e \<Rightarrow> Inl e
              | Inr history \<Rightarrow>
                  Inr (history,
                       st1\<lparr>activeRooms := (activeRooms st1)(room \<mapsto> insert sid members)\<rparr>)))"

text \<open>
  \<^verbatim>\<open>socket.on("disconnect", ...)\<close>, lines 261 to 273. \<^verbatim>\<open>socket.currentRoom\<close> is tested for
  truthiness, so the empty room name counts as no room.
\<close>

definition disconnect :: "string \<Rightarrow> registry \<Rightarrow> exn + registry" where
  "disconnect sid st =
     (let st1 = st\<lparr>rooms_io := (\<lambda>room. rooms_io st room - {sid})\<rparr>
      in case currentRoom st1 sid of
           None \<Rightarrow> Inr st1
         | Some room \<Rightarrow>
             if room = [] then Inr st1
             else (case get_prop (activeRooms st1) room of
                     Undefined \<Rightarrow> Inr st1
                   | Inherited \<Rightarrow> Inl TypeError
                   | Own members \<Rightarrow>
                       if members - {sid} = {}
                       then Inr (st1\<lparr>activeRooms := (activeRooms st1)(room := None)\<rparr>)
                       else Inr (st1\<lparr>activeRooms :=
                                      (activeRooms st1)(room \<mapsto> members - {sid})\<rparr>)))"

text \<open>The members of a room as \<open>activeRooms\<close> records them; the empty set for an unknown room.\<close>

definition membersOf :: "registry \<Rightarrow> string \<Rightarrow> string set" where
  "membersOf st room = (case activeRooms st room of None \<Rightarrow> {} | Some s \<Rightarrow> s)"

section \<open>Messages over the socket\<close>

text \<open>
  \<^verbatim>\<open>socket.on("send_message", ...)\<close>, lines 245 to 259: the specification's \<open>submit\<close>.
  \<open>now\<close> is \<^verbatim>\<open>Date.now()\<close> and \<open>rnd\<close> is the string \<^verbatim>\<open>Math.random().toString(36)\<close>, of
  which \<^verbatim>\<open>substr(2, 5)\<close> keeps at most five characters after the first two. The reply is
  the message sent to the room as \<^verbatim>\<open>receive_message\<close> and back to the sender as
  \<^verbatim>\<open>message_sent\<close>; when \<^verbatim>\<open>saveChatMessage\<close> throws nothing is sent.
\<close>

definition substr :: "nat \<Rightarrow> nat \<Rightarrow> string \<Rightarrow> string" where
  "substr start len s = take len (drop start s)"

definition message_id :: "nat \<Rightarrow> string \<Rightarrow> string" where
  "message_id now rnd = toString now @ substr 2 5 rnd"

definition send_message ::
  "disk \<Rightarrow> nat \<Rightarrow> string \<Rightarrow> message \<Rightarrow> exn + message \<times> disk" where
  "send_message d now rnd data =
     (let data' = data\<lparr>id_msg := Some (message_id now rnd)\<rparr>
      in case saveChatMessage d (room_msg data') data' of
           Inl e \<Rightarrow> Inl e
         | Inr d' \<Rightarrow> Inr (data', d'))"

section \<open>The specification's word for deleting a message\<close>

text \<open>
  Section 4.2 of the specification describes \<open>deleteMessage\<close> as removing the first
  message of the log that matches the id and the author. This function follows those
  words, to be compared with the filter of the handler.
\<close>

fun spec_remove_first_match :: "string \<Rightarrow> string \<Rightarrow> message list \<Rightarrow> message list" where
  "spec_remove_first_match messageId author' [] = []"
| "spec_remove_first_match messageId author' (m # ms) =
     (if keeps messageId author' m then m # spec_remove_first_match messageId author' ms
      else ms)"

section \<open>Example data\<close>

text \<open>
  A disk as the server finds it after start-up, with \<^verbatim>\<open>server.js\<close> in \<^verbatim>\<open>/srv/app\<close>; messages
  and the disks that hold them in the file of room A; a request body as a client posts
  it, the record the handler of create makes of it at clock reading 1700000000000, a
  joiner, and the table and the request sequence built from them.
\<close>

definition example_disk :: disk where
  "example_disk =
     \<lparr>dirname = [''srv'', ''app''],
      nodes = [[] \<mapsto> Directory,
               [''srv''] \<mapsto> Directory,
               [''srv'', ''app''] \<mapsto> Directory,
               [''srv'', ''app'', ''chat_storage''] \<mapsto> Directory,
               [''srv'', ''app'', ''class_requests.json''] \<mapsto> File_json Other_json]\<rparr>"

definition example_input :: message where
  "example_input = \<lparr>id_msg = None, room_msg = ''A'', author = ''alice'', body = ''hi''\<rparr>"

definition example_message :: message where
  "example_message = \<lparr>id_msg = Some ''1700000000000k3j9x'', room_msg = ''A'', author = ''alice'', body = ''hi''\<rparr>"

definition example_twin :: message where
  "example_twin = example_message\<lparr>body := ''again''\<rparr>"

definition example_disk_A :: disk where
  "example_disk_A = example_disk
     \<lparr>nodes := (nodes example_disk)
        ([''srv'', ''app'', ''chat_storage'', ''A.json''] \<mapsto> File_json (Array [example_message]))\<rparr>"

definition example_disk_twins :: disk where
  "example_disk_twins = example_disk_A
     \<lparr>nodes := (nodes example_disk_A)
        ([''srv'', ''app'', ''chat_storage'', ''A.json'']
           \<mapsto> File_json (Array [example_message, example_twin]))\<rparr>"

definition example_disk_pair :: disk where
  "example_disk_pair = example_disk
     \<lparr>nodes := (nodes example_disk)
        ([''srv'', ''app'', ''chat_storage'', ''A.json'']
           \<mapsto> File_json (Array [example_message, example_twin\<lparr>author := ''bob''\<rparr>]))\<rparr>"

definition example_body :: class_request where
  "example_body = \<lparr>id_req = [], room_req = ''A'', creatorName = ''bob'',
     creatorStudentId = ''s1'', creatorClass = ''10A'', participants = [],
     participantCount = 0, createdAt = [], extra = [(''subject'', ''maths'')]\<rparr>"

definition example_body2 :: class_request where
  "example_body2 = \<lparr>id_req = [], room_req = ''A'', creatorName = ''carol'',
     creatorStudentId = ''s2'', creatorClass = ''10B'', participants = [],
     participantCount = 0, createdAt = [], extra = [(''subject'', ''physics'')]\<rparr>"

definition example_created :: class_request where
  "example_created = example_body
     \<lparr>id_req := ''1700000000000'',
      participants := [\<lparr>studentId = ''s1'', fullName = ''bob'', class_p = ''10A''\<rparr>],
      participantCount := 1,
      createdAt := ''2023-11-14T22:13:20.000Z''\<rparr>"

definition example_created2 :: class_request where
  "example_created2 = example_body2
     \<lparr>id_req := ''1700000000000'',
      participants := [\<lparr>studentId = ''s2'', fullName = ''carol'', class_p = ''10B''\<rparr>],
      participantCount := 1,
      createdAt := ''2023-11-14T22:13:20.000Z''\<rparr>"

definition example_joiner :: participant where
  "example_joiner = \<lparr>studentId = ''s2'', fullName = ''carol'', class_p = ''10B''\<rparr>"

definition example_joined :: class_request where
  "example_joined = example_created
     \<lparr>participants := [\<lparr>studentId = ''s1'', fullName = ''bob'', class_p = ''10A''\<rparr>, example_joiner],
      participantCount := 2\<rparr>"

definition example_table :: request_table where
  "example_table = Map.empty(''1700000000000'' \<mapsto> example_created)"

definition example_ops :: "request_op list" where
  "example_ops =
     [Create example_body 1700000000000 ''2023-11-14T22:13:20.000Z'',
      Join ''1700000000000'' example_joiner,
      Join ''1700000000000'' example_joiner,
      Delete ''1700000000000'' ''carol'']"

section \<open>Deleting a chat message\<close>

text \<open>
  A filter keeps the length of a list exactly when it keeps every element; when it drops
  at most one element it removes the first one that fails the test.
\<close>

lemma length_filter_same_iff:
  "length (filter P xs) = length xs \<longleftrightarrow> (\<forall>x \<in> set xs. P x)"
proof (induction xs)
  case Nil
  show ?case by simp
next
  case (Cons x xs)
  have le: "length (filter P xs) \<le> length xs" by (rule length_filter_le)
  show ?case
  proof (cases "P x")
    case True
    with Cons show ?thesis by simp
  next
    case False
    from le have "length (filter P xs) \<noteq> Suc (length xs)" by linarith
    with False show ?thesis by auto
  qed
qed

lemma filter_keeps_spec:
  "length (filter (\<lambda>m. \<not> keeps i a m) xs) \<le> 1 \<Longrightarrow>
   filter (keeps i a) xs = spec_remove_first_match i a xs"
proof (induction xs)
  case Nil
  show ?case by simp
next
  case (Cons m ms)
  show ?case
  proof (cases "keeps i a m")
    case True
    with Cons show ?thesis by simp
  next
    case False
    with Cons.prems have "filter (\<lambda>m. \<not> keeps i a m) ms = []" by simp
    then have "\<forall>x \<in> set ms. keeps i a x" by (simp add: filter_empty_conv)
    then have "filter (keeps i a) ms = ms" by simp
    with False show ?thesis by simp
  qed
qed

text \<open>
  What a write that succeeds leaves, and what the room's history is before and after.
\<close>

lemma writeFileSync_result:
  "writeFileSync d p v = Inr d' \<Longrightarrow>
   valid_path p \<and> d' = d\<lparr>nodes := (nodes d)(p \<mapsto> File_json v)\<rparr>"
  by (auto simp: writeFileSync_def split: if_splits option.splits node.splits)

lemma getChatFilePath_nodes [simp]:
  "getChatFilePath (d\<lparr>nodes := n\<rparr>) room = getChatFilePath d room"
  by (simp add: getChatFilePath_def CHAT_STORAGE_PATH_def)

lemma loadChatHistory_written:
  "valid_path (getChatFilePath d room) \<Longrightarrow>
   loadChatHistory (d\<lparr>nodes := (nodes d)(getChatFilePath d room \<mapsto> File_json v)\<rparr>) room = Inr v"
  by (simp add: loadChatHistory_def existsSync_def readJson_def)

lemma loadChatHistory_Array:
  "loadChatHistory d room = Inr (Array h) \<Longrightarrow> valid_path (getChatFilePath d room) \<Longrightarrow>
   nodes d (getChatFilePath d room) = None \<and> h = []
   \<or> nodes d (getChatFilePath d room) = Some (File_json (Array h))"
  by (auto simp: loadChatHistory_def existsSync_def readJson_def Let_def
      split: if_splits option.splits node.splits)

lemma loadChatHistory_file:
  "valid_path (getChatFilePath d room) \<Longrightarrow>
   nodes d (getChatFilePath d room) = Some (File_json v) \<Longrightarrow> loadChatHistory d room = Inr v"
  by (simp add: loadChatHistory_def existsSync_def readJson_def)

lemma loadChatHistory_no_file:
  "nodes d (getChatFilePath d room) = None \<Longrightarrow> loadChatHistory d room = Inr (Array [])"
  by (simp add: loadChatHistory_def existsSync_def)

text \<open>
  The deletion in a room whose file holds an array of messages.
\<close>

lemma delete_chat_message_file:
  assumes "valid_path (getChatFilePath d room)"
    and "nodes d (getChatFilePath d room) = Some (File_json (Array h))"
  shows "delete_chat_message d room messageId a =
     (if length h = length (filter (keeps messageId a) h)
      then (Err 403 ''You can only delete your own messages'', d)
      else (Ok 200 (), d\<lparr>nodes := (nodes d)(getChatFilePath d room
                     \<mapsto> File_json (Array (filter (keeps messageId a) h)))\<rparr>))"
  using assms
  by (simp add: delete_chat_message_def loadChatHistory_file Let_def saveChatHistory_def
      writeFileSync_def)

lemma delete_chat_message_Ok:
  assumes "fst (delete_chat_message d room messageId a) = Ok 200 ()"
  shows "\<exists>history. loadChatHistory d room = Inr (Array history)
           \<and> valid_path (getChatFilePath d room)
           \<and> snd (delete_chat_message d room messageId a)
               = d\<lparr>nodes := (nodes d)(getChatFilePath d room
                     \<mapsto> File_json (Array (filter (keeps messageId a) history)))\<rparr>"
proof (cases "loadChatHistory d room")
  case (Inl e)
  with assms show ?thesis by (simp add: delete_chat_message_def)
next
  case (Inr v)
  show ?thesis
  proof (cases v)
    case Other_json
    with Inr assms show ?thesis by (simp add: delete_chat_message_def)
  next
    case (Array history)
    let ?u = "filter (keeps messageId a) history"
    from assms Inr Array have ne: "length history \<noteq> length ?u"
      by (auto simp: delete_chat_message_def Let_def)
    show ?thesis
    proof (cases "saveChatHistory d room ?u")
      case (Inl e)
      with assms Inr Array ne show ?thesis
        by (simp add: delete_chat_message_def Let_def)
    next
      case save: (Inr d')
      then have "valid_path (getChatFilePath d room)
          \<and> d' = d\<lparr>nodes := (nodes d)(getChatFilePath d room \<mapsto> File_json (Array ?u))\<rparr>"
        unfolding saveChatHistory_def by (rule writeFileSync_result)
      with Inr Array ne save show ?thesis
        by (simp add: delete_chat_message_def Let_def)
    qed
  qed
qed

text \<open>
  C5, as amended. A deletion that succeeds found an array of messages as the room's log
  and leaves the log without every message that has both the id and the author; all
  other messages stay, in their order. When at most one message matches, this is the
  removal of the first match that the specification describes.
\<close>

theorem delete_chat_message_success:
  assumes "fst (delete_chat_message d room messageId a) = Ok 200 ()"
  shows "\<exists>history.
           loadChatHistory d room = Inr (Array history)
           \<and> loadChatHistory (snd (delete_chat_message d room messageId a)) room
               = Inr (Array (filter (keeps messageId a) history))
           \<and> (length (filter (\<lambda>m. \<not> keeps messageId a m) history) \<le> 1
                \<longrightarrow> loadChatHistory (snd (delete_chat_message d room messageId a)) room
                      = Inr (Array (spec_remove_first_match messageId a history)))"
proof -
  from delete_chat_message_Ok [OF assms] obtain history where
    h: "loadChatHistory d room = Inr (Array history)"
    and v: "valid_path (getChatFilePath d room)"
    and s: "snd (delete_chat_message d room messageId a)
               = d\<lparr>nodes := (nodes d)(getChatFilePath d room
                     \<mapsto> File_json (Array (filter (keeps messageId a) history)))\<rparr>"
    by blast
  have "loadChatHistory (snd (delete_chat_message d room messageId a)) room
               = Inr (Array (filter (keeps messageId a) history))"
    unfolding s using v by (rule loadChatHistory_written)
  with h show ?thesis
    by (auto simp: filter_keeps_spec)
qed

text \<open>
  The paths and the histories of the example disks.
\<close>

lemma example_paths:
  "getChatFilePath example_disk ''A'' = [''srv'', ''app'', ''chat_storage'', ''A.json'']"
  "getChatFilePath example_disk ''./A'' = [''srv'', ''app'', ''chat_storage'', ''A.json'']"
  "getChatFilePath example_disk ''x/y'' = [''srv'', ''app'', ''chat_storage'', ''x'', ''y.json'']"
  "getChatFilePath example_disk ''../class_requests'' = [''srv'', ''app'', ''class_requests.json'']"
  "CLASS_REQUESTS_PATH example_disk = [''srv'', ''app'', ''class_requests.json'']"
  by (simp_all add: getChatFilePath_def CHAT_STORAGE_PATH_def CLASS_REQUESTS_PATH_def
      path_join_def example_disk_def)

lemma example_paths_A [simp]:
  "getChatFilePath example_disk_A r = getChatFilePath example_disk r"
  "getChatFilePath example_disk_twins r = getChatFilePath example_disk r"
  "getChatFilePath example_disk_pair r = getChatFilePath example_disk r"
  by (simp_all add: example_disk_A_def example_disk_twins_def example_disk_pair_def)

lemma example_nodes:
  "nodes example_disk (getChatFilePath example_disk ''A'') = None"
  "nodes example_disk (getChatFilePath example_disk ''B'') = None"
  "nodes example_disk (getChatFilePath example_disk ''x/y'') = None"
  "nodes example_disk (butlast (getChatFilePath example_disk ''A'')) = Some Directory"
  "nodes example_disk (butlast (getChatFilePath example_disk ''x/y'')) = None"
  "nodes example_disk (getChatFilePath example_disk ''../class_requests'')
     = Some (File_json Other_json)"
  "nodes example_disk_A (getChatFilePath example_disk ''A'')
     = Some (File_json (Array [example_message]))"
  "nodes example_disk_twins (getChatFilePath example_disk ''A'')
     = Some (File_json (Array [example_message, example_twin]))"
  "nodes example_disk_pair (getChatFilePath example_disk ''A'')
     = Some (File_json (Array [example_message, example_twin\<lparr>author := ''bob''\<rparr>]))"
  by (simp_all add: getChatFilePath_def CHAT_STORAGE_PATH_def path_join_def example_disk_def
      example_disk_A_def example_disk_twins_def example_disk_pair_def)

lemma example_valid [simp]:
  "valid_path (getChatFilePath example_disk ''A'')"
  "valid_path (getChatFilePath example_disk ''B'')"
  "valid_path (getChatFilePath example_disk ''x/y'')"
  "valid_path (getChatFilePath example_disk ''../class_requests'')"
  by (simp_all add: valid_path_def getChatFilePath_def CHAT_STORAGE_PATH_def path_join_def
      example_disk_def)

lemma example_loads:
  "loadChatHistory example_disk ''A'' = Inr (Array [])"
  "loadChatHistory example_disk ''B'' = Inr (Array [])"
  "loadChatHistory example_disk_A ''A'' = Inr (Array [example_message])"
  "loadChatHistory example_disk_twins ''A'' = Inr (Array [example_message, example_twin])"
  "loadChatHistory example_disk_pair ''A''
     = Inr (Array [example_message, example_twin\<lparr>author := ''bob''\<rparr>])"
  "loadChatHistory example_disk ''../class_requests'' = Inr Other_json"
  by (simp_all add: loadChatHistory_file loadChatHistory_no_file example_nodes)

text \<open>
  The theorem at a log of two messages with one id, one of alice and one of bob.
\<close>

theorem delete_chat_message_success_witness:
  "loadChatHistory example_disk_pair ''A''
     = Inr (Array [example_message, example_twin\<lparr>author := ''bob''\<rparr>])
   \<and> fst (delete_chat_message example_disk_pair ''A'' ''1700000000000k3j9x'' ''alice'') = Ok 200 ()
   \<and> loadChatHistory
        (snd (delete_chat_message example_disk_pair ''A'' ''1700000000000k3j9x'' ''alice'')) ''A''
     = Inr (Array [example_twin\<lparr>author := ''bob''\<rparr>])
   \<and> loadChatHistory
        (snd (delete_chat_message example_disk_pair ''A'' ''1700000000000k3j9x'' ''alice'')) ''A''
     = Inr (Array (spec_remove_first_match ''1700000000000k3j9x'' ''alice''
                     [example_message, example_twin\<lparr>author := ''bob''\<rparr>]))"
proof -
  let ?log = "[example_message, example_twin\<lparr>author := ''bob''\<rparr>]"
  let ?after = "loadChatHistory
        (snd (delete_chat_message example_disk_pair ''A'' ''1700000000000k3j9x'' ''alice'')) ''A''"
  have ld: "loadChatHistory example_disk_pair ''A'' = Inr (Array ?log)"
    by (rule example_loads)
  have flt: "filter (keeps ''1700000000000k3j9x'' ''alice'') ?log = [example_twin\<lparr>author := ''bob''\<rparr>]"
    by (simp add: example_message_def example_twin_def keeps_def)
  have one: "length (filter (\<lambda>m. \<not> keeps ''1700000000000k3j9x'' ''alice'' m) ?log) \<le> 1"
    by (simp add: example_message_def example_twin_def keeps_def)
  have node: "nodes example_disk_pair (getChatFilePath example_disk_pair ''A'')
      = Some (File_json (Array ?log))"
    by (simp add: example_nodes)
  have valid: "valid_path (getChatFilePath example_disk_pair ''A'')" by simp
  have ok: "fst (delete_chat_message example_disk_pair ''A'' ''1700000000000k3j9x'' ''alice'') = Ok 200 ()"
    unfolding delete_chat_message_file [OF valid node] flt by simp
  from delete_chat_message_success [OF ok] obtain history where
    h: "loadChatHistory example_disk_pair ''A'' = Inr (Array history)"
    and a: "?after = Inr (Array (filter (keeps ''1700000000000k3j9x'' ''alice'') history))"
    and b: "length (filter (\<lambda>m. \<not> keeps ''1700000000000k3j9x'' ''alice'' m) history) \<le> 1
        \<longrightarrow> ?after = Inr (Array (spec_remove_first_match ''1700000000000k3j9x'' ''alice'' history))"
    by blast
  from h ld have eq: "history = ?log" by simp
  from a have c3: "?after = Inr (Array [example_twin\<lparr>author := ''bob''\<rparr>])"
    unfolding eq flt .
  from b one have c4: "?after
      = Inr (Array (spec_remove_first_match ''1700000000000k3j9x'' ''alice'' ?log))"
    unfolding eq by blast
  from ld ok c3 c4 show ?thesis by (intro conjI)
qed

text \<open>
  C5 as the specification states it fails: in a log where two messages of alice carry the
  same id, the deletion removes both, while removing the first match would keep the
  second.
\<close>

theorem delete_chat_message_drops_later_match:
  "loadChatHistory example_disk_twins ''A'' = Inr (Array [example_message, example_twin])
   \<and> fst (delete_chat_message example_disk_twins ''A'' ''1700000000000k3j9x'' ''alice'') = Ok 200 ()
   \<and> loadChatHistory
        (snd (delete_chat_message example_disk_twins ''A'' ''1700000000000k3j9x'' ''alice'')) ''A''
     = Inr (Array [])
   \<and> spec_remove_first_match ''1700000000000k3j9x'' ''alice'' [example_message, example_twin]
       = [example_twin]
   \<and> example_twin \<noteq> example_message"
proof -
  have flt: "filter (keeps ''1700000000000k3j9x'' ''alice'') [example_message, example_twin] = []"
    by (simp add: example_message_def example_twin_def keeps_def)
  have node: "nodes example_disk_twins (getChatFilePath example_disk_twins ''A'')
      = Some (File_json (Array [example_message, example_twin]))"
    by (simp add: example_nodes)
  have valid: "valid_path (getChatFilePath example_disk_twins ''A'')" by simp
  have del: "delete_chat_message example_disk_twins ''A'' ''1700000000000k3j9x'' ''alice''
      = (Ok 200 (), example_disk_twins\<lparr>nodes := (nodes example_disk_twins)
           (getChatFilePath example_disk ''A'' \<mapsto> File_json (Array []))\<rparr>)"
    unfolding delete_chat_message_file [OF valid node] flt by simp
  have "loadChatHistory (example_disk_twins\<lparr>nodes := (nodes example_disk_twins)
           (getChatFilePath example_disk_twins ''A'' \<mapsto> File_json (Array []))\<rparr>) ''A''
      = Inr (Array [])"
    using valid by (rule loadChatHistory_written)
  then have after: "loadChatHistory
        (snd (delete_chat_message example_disk_twins ''A'' ''1700000000000k3j9x'' ''alice'')) ''A''
      = Inr (Array [])"
    by (simp add: del)
  have ok: "fst (delete_chat_message example_disk_twins ''A'' ''1700000000000k3j9x'' ''alice'')
      = Ok 200 ()"
    by (simp add: del)
  have sp: "spec_remove_first_match ''1700000000000k3j9x'' ''alice'' [example_message, example_twin]
       = [example_twin]"
    by (simp add: example_message_def example_twin_def keeps_def)
  have ne: "example_twin \<noteq> example_message"
    by (simp add: example_message_def example_twin_def)
  from example_loads(4) ok after sp ne show ?thesis by (intro conjI)
qed

text \<open>
  In a room whose file is missing or holds an array of messages, the deletion answers
  403 exactly when no message has both the id and the author, and then leaves the disk
  as it was.
\<close>

lemma delete_chat_message_forbidden_regular:
  assumes "loadChatHistory d room = Inr (Array h)"
  shows "(fst (delete_chat_message d room messageId a)
            = Err 403 ''You can only delete your own messages''
          \<longleftrightarrow> \<not> (\<exists>m \<in> set h. id_msg m = Some messageId \<and> author m = a))
         \<and> (\<not> (\<exists>m \<in> set h. id_msg m = Some messageId \<and> author m = a)
            \<longrightarrow> delete_chat_message d room messageId a
                  = (Err 403 ''You can only delete your own messages'', d))"
proof -
  have iff: "length h = length (filter (keeps messageId a) h)
        \<longleftrightarrow> \<not> (\<exists>m \<in> set h. id_msg m = Some messageId \<and> author m = a)"
    using length_filter_same_iff [of "keeps messageId a" h] by (auto simp: keeps_def)
  show ?thesis
  proof (cases "length h = length (filter (keeps messageId a) h)")
    case True
    with assms iff show ?thesis
      by (simp add: delete_chat_message_def Let_def)
  next
    case False
    with assms iff show ?thesis
      by (cases "saveChatHistory d room (filter (keeps messageId a) h)")
         (simp_all add: delete_chat_message_def Let_def)
  qed
qed

text \<open>
  C6. The specification wants 403 exactly when no message of the room's log has both
  the id and the author. The room name goes into the path of the file unchecked: the
  room \<^verbatim>\<open>../class_requests\<close> names the class requests file, whose JSON is an object, not
  an array; no message matches there, and the handler throws a \<^verbatim>\<open>TypeError\<close> at
  \<^verbatim>\<open>history.filter\<close> (Express answers 500) where the specification wants 403.
\<close>

theorem delete_chat_message_path_traversal:
  "getChatFilePath example_disk ''../class_requests'' = CLASS_REQUESTS_PATH example_disk
   \<and> get_chat example_disk ''../class_requests'' = Ok 200 Other_json
   \<and> delete_chat_message example_disk ''../class_requests'' ''1700000000000k3j9x'' ''alice''
       = (Uncaught TypeError, example_disk)"
  by (simp add: example_paths get_chat_def delete_chat_message_def example_loads)

section \<open>Submitting a message\<close>

text \<open>
  \<^verbatim>\<open>saveChatMessage\<close> on a file that holds an array, on a new file in a directory that
  exists, and where the directory is missing.
\<close>

lemma saveChatMessage_file:
  "valid_path (getChatFilePath d room) \<Longrightarrow>
   nodes d (getChatFilePath d room) = Some (File_json (Array h)) \<Longrightarrow>
   saveChatMessage d room m
     = Inr (d\<lparr>nodes := (nodes d)(getChatFilePath d room \<mapsto> File_json (Array (h @ [m])))\<rparr>)"
  by (simp add: saveChatMessage_def loadChatHistory_file writeFileSync_def)

lemma saveChatMessage_new_file:
  "valid_path (getChatFilePath d room) \<Longrightarrow>
   nodes d (getChatFilePath d room) = None \<Longrightarrow>
   nodes d (butlast (getChatFilePath d room)) = Some Directory \<Longrightarrow>
   saveChatMessage d room m
     = Inr (d\<lparr>nodes := (nodes d)(getChatFilePath d room \<mapsto> File_json (Array [m]))\<rparr>)"
  by (simp add: saveChatMessage_def loadChatHistory_no_file writeFileSync_def)

lemma saveChatMessage_no_directory:
  "valid_path (getChatFilePath d room) \<Longrightarrow>
   nodes d (getChatFilePath d room) = None \<Longrightarrow>
   nodes d (butlast (getChatFilePath d room)) = None \<Longrightarrow>
   saveChatMessage d room m = Inl FsError"
  by (simp add: saveChatMessage_def loadChatHistory_no_file writeFileSync_def)

text \<open>
  A submit that returns has appended the message it sends back to the room's history.
\<close>

lemma saveChatMessage_Inr:
  assumes "saveChatMessage d room m = Inr d'"
  shows "\<exists>h. loadChatHistory d room = Inr (Array h)
           \<and> valid_path (getChatFilePath d room)
           \<and> d' = d\<lparr>nodes := (nodes d)(getChatFilePath d room \<mapsto> File_json (Array (h @ [m])))\<rparr>"
proof (cases "loadChatHistory d room")
  case (Inl e)
  with assms show ?thesis by (simp add: saveChatMessage_def)
next
  case (Inr v)
  show ?thesis
  proof (cases v)
    case Other_json
    with Inr assms show ?thesis by (simp add: saveChatMessage_def)
  next
    case (Array h)
    with Inr assms have "writeFileSync d (getChatFilePath d room) (Array (h @ [m])) = Inr d'"
      by (simp add: saveChatMessage_def)
    then have "valid_path (getChatFilePath d room)
        \<and> d' = d\<lparr>nodes := (nodes d)(getChatFilePath d room \<mapsto> File_json (Array (h @ [m])))\<rparr>"
      by (rule writeFileSync_result)
    with Inr Array show ?thesis by simp
  qed
qed

lemma send_message_appends:
  assumes "send_message d now rnd data = Inr (m, d')"
  shows "m = data\<lparr>id_msg := Some (message_id now rnd)\<rparr>
         \<and> (\<exists>h. loadChatHistory d (room_msg data) = Inr (Array h)
                \<and> loadChatHistory d' (room_msg data) = Inr (Array (h @ [m])))"
proof -
  let ?m = "data\<lparr>id_msg := Some (message_id now rnd)\<rparr>"
  from assms have m: "m = ?m" and sv: "saveChatMessage d (room_msg data) ?m = Inr d'"
    by (auto simp: send_message_def Let_def split: sum.splits)
  from saveChatMessage_Inr [OF sv] obtain h where
    h: "loadChatHistory d (room_msg data) = Inr (Array h)"
    and v: "valid_path (getChatFilePath d (room_msg data))"
    and d': "d' = d\<lparr>nodes := (nodes d)(getChatFilePath d (room_msg data)
                  \<mapsto> File_json (Array (h @ [?m])))\<rparr>"
    by blast
  have "loadChatHistory d' (room_msg data) = Inr (Array (h @ [?m]))"
    unfolding d' using v by (rule loadChatHistory_written)
  with m h show ?thesis by blast
qed

text \<open>
  The chat handlers leave every node that does not hold an array of messages as it is;
  in particular they never write the class requests file.
\<close>

lemma saveChatMessage_keeps_other_files:
  assumes "saveChatMessage d room m = Inr d'"
    and "nodes d p = Some n" and "\<And>h. n \<noteq> File_json (Array h)"
  shows "nodes d' p = Some n"
proof -
  from saveChatMessage_Inr [OF assms(1)] obtain h where
    h: "loadChatHistory d room = Inr (Array h)"
    and v: "valid_path (getChatFilePath d room)"
    and d': "d' = d\<lparr>nodes := (nodes d)(getChatFilePath d room \<mapsto> File_json (Array (h @ [m])))\<rparr>"
    by blast
  have "p \<noteq> getChatFilePath d room"
  proof
    assume "p = getChatFilePath d room"
    with loadChatHistory_Array [OF h v] assms(2) have "n = File_json (Array h)" by auto
    with assms(3) show False by blast
  qed
  with d' assms(2) show ?thesis by simp
qed

lemma delete_chat_message_keeps_other_files:
  assumes "nodes d p = Some n" and "\<And>h. n \<noteq> File_json (Array h)"
  shows "nodes (snd (delete_chat_message d room messageId a)) p = Some n"
proof (cases "fst (delete_chat_message d room messageId a) = Ok 200 ()")
  case True
  from delete_chat_message_Ok [OF True] obtain h where
    h: "loadChatHistory d room = Inr (Array h)"
    and v: "valid_path (getChatFilePath d room)"
    and s: "snd (delete_chat_message d room messageId a)
               = d\<lparr>nodes := (nodes d)(getChatFilePath d room
                     \<mapsto> File_json (Array (filter (keeps messageId a) h)))\<rparr>"
    by blast
  have "p \<noteq> getChatFilePath d room"
  proof
    assume "p = getChatFilePath d room"
    with loadChatHistory_Array [OF h v] assms(1) have "n = File_json (Array h)" by auto
    with assms(2) show False by blast
  qed
  with s assms(1) show ?thesis by simp
next
  case False
  then have "snd (delete_chat_message d room messageId a) = d"
    by (auto simp: delete_chat_message_def Let_def split: sum.splits json_value.splits)
  with assms(1) show ?thesis by simp
qed

lemma toString_example: "toString 1700000000000 = ''1700000000000''"
  by (simp add: toString.simps digit_def)

lemma example_message_id: "message_id 1700000000000 ''0.k3j9x2m'' = ''1700000000000k3j9x''"
  by (simp add: message_id_def substr_def toString_example)

text \<open>
  C9. The specification wants every submit to append the message to the room's log under
  a fresh unique id and to send it back. For the room \<^verbatim>\<open>x/y\<close> the file would lie in the
  directory \<^verbatim>\<open>chat_storage/x\<close>, which nothing creates: \<^verbatim>\<open>writeFileSync\<close> throws, nothing is
  stored and nothing is sent. And two submits at one clock reading with one random draw
  get the same id: the second id is not fresh, and both messages are stored.
\<close>

theorem send_message_failures:
  "send_message example_disk 1700000000000 ''0.k3j9x2m'' (example_input\<lparr>room_msg := ''x/y''\<rparr>)
     = Inl FsError
   \<and> send_message example_disk 1700000000000 ''0.k3j9x2m'' example_input
     = Inr (example_message, example_disk_A)
   \<and> send_message example_disk_A 1700000000000 ''0.k3j9x2m'' (example_input\<lparr>body := ''again''\<rparr>)
     = Inr (example_twin, example_disk_twins)
   \<and> id_msg example_twin = id_msg example_message
   \<and> example_twin \<noteq> example_message"
proof -
  have m1: "example_input\<lparr>id_msg := Some ''1700000000000k3j9x''\<rparr> = example_message"
    by (simp add: example_input_def example_message_def)
  have m2: "example_input\<lparr>body := ''again'', id_msg := Some ''1700000000000k3j9x''\<rparr> = example_twin"
    by (simp add: example_input_def example_message_def example_twin_def)
  have r1: "room_msg example_input = ''A''" "room_msg example_message = ''A''"
    "room_msg example_twin = ''A''"
    by (simp_all add: example_input_def example_message_def example_twin_def)
  have svx: "saveChatMessage example_disk ''x/y'' m = Inl FsError" for m
    by (rule saveChatMessage_no_directory) (simp_all add: example_nodes)
  have c1: "send_message example_disk 1700000000000 ''0.k3j9x2m'' (example_input\<lparr>room_msg := ''x/y''\<rparr>)
     = Inl FsError"
    by (simp add: send_message_def example_message_id svx)
  have sv0: "saveChatMessage example_disk ''A'' example_message
      = Inr (example_disk\<lparr>nodes := (nodes example_disk)
          (getChatFilePath example_disk ''A'' \<mapsto> File_json (Array [example_message]))\<rparr>)"
    by (rule saveChatMessage_new_file) (simp_all add: example_nodes)
  have c2: "send_message example_disk 1700000000000 ''0.k3j9x2m'' example_input
     = Inr (example_message, example_disk_A)"
    by (simp add: send_message_def example_message_id m1 r1 sv0 example_disk_A_def
        example_paths)
  have "nodes example_disk_A (getChatFilePath example_disk_A ''A'')
      = Some (File_json (Array [example_message]))"
    by (simp add: example_nodes)
  moreover have "valid_path (getChatFilePath example_disk_A ''A'')" by simp
  ultimately have sv: "saveChatMessage example_disk_A ''A'' example_twin
      = Inr (example_disk_A\<lparr>nodes := (nodes example_disk_A)
          (getChatFilePath example_disk_A ''A'' \<mapsto> File_json (Array ([example_message] @ [example_twin])))\<rparr>)"
    by (simp add: saveChatMessage_file)
  have c3: "send_message example_disk_A 1700000000000 ''0.k3j9x2m'' (example_input\<lparr>body := ''again''\<rparr>)
     = Inr (example_twin, example_disk_twins)"
    by (simp add: send_message_def example_message_id m2 r1 sv example_disk_twins_def example_paths)
  have c4: "id_msg example_twin = id_msg example_message"
    by (simp add: example_twin_def)
  have c5: "example_twin \<noteq> example_message"
    by (simp add: example_message_def example_twin_def)
  from c1 c2 c3 c4 c5 show ?thesis by (intro conjI)
qed

section \<open>Generated ids\<close>

text \<open>
  The decimal digits determine the number, and a number of k + 1 digits lies between
  10 ^ k and 10 ^ (k + 1). Clock readings from 10 ^ 12 to 10 ^ 13 - 1 milliseconds (the
  years 2001 to 2286) have thirteen digits, so two ids made at such readings are equal
  only if the readings and the suffixes are.
\<close>

lemma digit_inj: "a < 10 \<Longrightarrow> b < 10 \<Longrightarrow> digit a = digit b \<Longrightarrow> a = b"
proof -
  assume a: "a < 10" and b: "b < 10" and eq: "digit a = digit b"
  have d: "distinct ''0123456789''" by simp
  have "length ''0123456789'' = 10" by simp
  with a b d eq show "a = b"
    unfolding digit_def by (metis nth_eq_iff_index_eq)
qed

lemma toString_length_pos: "0 < length (toString n)"
  by (induction n rule: toString.induct) (subst toString.simps, simp)

lemma toString_length_ge10: "10 \<le> n \<Longrightarrow> 2 \<le> length (toString n)"
proof -
  assume "10 \<le> n"
  then have "toString n = toString (n div 10) @ [digit (n mod 10)]"
    by (subst toString.simps) simp
  then have "length (toString n) = Suc (length (toString (n div 10)))" by simp
  with toString_length_pos [of "n div 10"] show ?thesis by linarith
qed

lemma toString_length_lt10: "n < 10 \<Longrightarrow> length (toString n) = 1"
  by (subst toString.simps) simp

lemma toString_inj: "toString n = toString m \<Longrightarrow> n = m"
proof (induction n arbitrary: m rule: toString.induct)
  case (1 n)
  show ?case
  proof (cases "n < 10")
    case True
    then have n1: "toString n = [digit n]" by (subst toString.simps) simp
    have "m < 10"
    proof (rule ccontr)
      assume "\<not> m < 10"
      then have "2 \<le> length (toString m)" by (simp add: toString_length_ge10)
      moreover from True have "length (toString n) = 1" by (rule toString_length_lt10)
      ultimately show False using "1.prems" by simp
    qed
    then have "toString m = [digit m]" by (subst toString.simps) simp
    with n1 "1.prems" True \<open>m < 10\<close> show ?thesis by (simp add: digit_inj)
  next
    case False
    then have n2: "toString n = toString (n div 10) @ [digit (n mod 10)]"
      by (subst toString.simps) simp
    have m10: "\<not> m < 10"
    proof
      assume "m < 10"
      then have "length (toString m) = 1" by (rule toString_length_lt10)
      moreover from False have "2 \<le> length (toString n)" by (simp add: toString_length_ge10)
      ultimately show False using "1.prems" by simp
    qed
    then have m2: "toString m = toString (m div 10) @ [digit (m mod 10)]"
      by (subst toString.simps) simp
    from "1.prems" n2 m2 have eqs: "toString (n div 10) = toString (m div 10)"
      "digit (n mod 10) = digit (m mod 10)" by simp_all
    from "1.IH" [OF False eqs(1)] have "n div 10 = m div 10" .
    moreover from eqs(2) have "n mod 10 = m mod 10" by (simp add: digit_inj)
    ultimately show ?thesis by (metis div_mult_mod_eq)
  qed
qed

lemma message_id_inj:
  assumes "length (toString now) = length (toString now')"
    and "message_id now rnd = message_id now' rnd'"
  shows "now = now' \<and> substr 2 5 rnd = substr 2 5 rnd'"
  using assms by (simp add: message_id_def toString_inj)

lemma toString_length_digits:
  "10 ^ k \<le> n \<Longrightarrow> n < 10 ^ Suc k \<Longrightarrow> length (toString n) = Suc k"
proof (induction k arbitrary: n)
  case 0
  then show ?case by (subst toString.simps) simp
next
  case (Suc k)
  have "(10::nat) \<le> 10 ^ Suc k" by simp
  with Suc.prems(1) have ge: "\<not> n < 10" by linarith
  from Suc.prems have "10 ^ k \<le> n div 10" "n div 10 < 10 ^ Suc k"
    by (simp_all add: less_mult_imp_div_less div_le_mono2 mult.commute
        less_eq_div_iff_mult_less_eq)
  then have "length (toString (n div 10)) = Suc k" by (rule Suc.IH)
  with ge show ?case by (subst toString.simps) simp
qed

lemma toString_length_13:
  assumes "10 ^ 12 \<le> n" and "n < 10 ^ 13"
  shows "length (toString n) = 13"
proof -
  from assms(2) have "n < 10 ^ Suc 12" by simp
  from toString_length_digits [OF assms(1) this] show ?thesis by simp
qed

section \<open>Class requests\<close>

text \<open>
  Looking up a key: an own property is found; for a key that is not an own property the
  name decides.
\<close>

lemma get_prop_Some [simp]: "obj k = Some v \<Longrightarrow> get_prop obj k = Own v"
  by (simp add: get_prop_def)

lemma get_prop_Own_iff [simp]: "get_prop obj k = Own v \<longleftrightarrow> obj k = Some v"
  by (simp add: get_prop_def split: option.splits)

lemma get_prop_None:
  "obj k = None \<Longrightarrow>
   get_prop obj k = (if k \<in> set object_prototype_names then Inherited else Undefined)"
  by (simp add: get_prop_def)

text \<open>
  The three handlers as equations.
\<close>

lemma post_class_request_eq:
  "post_class_request requests now isoNow d =
     (Ok 201 (d\<lparr>id_req := toString now, participants := [creator_participant d],
                participantCount := 1, createdAt := isoNow\<rparr>),
      requests(toString now \<mapsto> d\<lparr>id_req := toString now, participants := [creator_participant d],
                participantCount := 1, createdAt := isoNow\<rparr>))"
  by (simp add: post_class_request_def creator_participant_def Let_def)

lemma alreadyJoined_iff:
  "list_ex (\<lambda>q. studentId q = studentId p) ps \<longleftrightarrow> studentId p \<in> studentId ` set ps"
  by (induction ps) auto

lemma join_eq:
  "post_class_request_join requests i p =
     (case get_prop requests i of
        Undefined \<Rightarrow> (Err 404 ''Class request not found'', requests)
      | Inherited \<Rightarrow> (Uncaught TypeError, requests)
      | Own r \<Rightarrow>
          if studentId p \<in> studentId ` set (participants r)
          then (Err 400 ''You have already joined this class request'', requests)
          else (Ok 200 (r\<lparr>participants := participants r @ [p],
                           participantCount := Suc (length (participants r))\<rparr>),
                requests(i \<mapsto> r\<lparr>participants := participants r @ [p],
                           participantCount := Suc (length (participants r))\<rparr>)))"
  by (simp add: post_class_request_join_def Let_def alreadyJoined_iff split: property.splits)

lemma join_table:
  "snd (post_class_request_join requests i p) =
     (case requests i of
        None \<Rightarrow> requests
      | Some r \<Rightarrow>
          if studentId p \<in> studentId ` set (participants r) then requests
          else requests(i \<mapsto> r\<lparr>participants := participants r @ [p],
                           participantCount := Suc (length (participants r))\<rparr>))"
  by (simp add: join_eq get_prop_def split: option.splits)

lemma delete_table:
  "snd (delete_class_request requests i creator) =
     (case requests i of
        None \<Rightarrow> requests
      | Some r \<Rightarrow> if creatorName r \<noteq> creator then requests else requests(i := None))"
  by (simp add: delete_class_request_def get_prop_def split: option.splits)

text \<open>
  Every request keeps the two invariants of the table, and so does every run.
\<close>

lemma request_ok_step:
  assumes "\<And>k r. requests k = Some r \<Longrightarrow> request_ok r"
    and "apply_request_op requests op k = Some r"
  shows "request_ok r"
proof (cases op)
  case (Create d now isoNow)
  with assms show ?thesis
    by (auto simp: post_class_request_eq request_ok_def creator_participant_def split: if_splits)
next
  case (Join i p)
  with assms show ?thesis
    by (auto simp: join_table request_ok_def creator_participant_def
        split: option.splits if_splits)
next
  case (Delete i creator)
  with assms show ?thesis
    by (auto simp: delete_table split: option.splits if_splits)
qed

lemma request_ok_run:
  assumes "\<And>k r. requests k = Some r \<Longrightarrow> request_ok r"
    and "run_request_ops requests ops k = Some r"
  shows "request_ok r"
  using assms
proof (induction ops arbitrary: requests k r)
  case Nil
  then show ?case by (simp add: run_request_ops_def)
next
  case (Cons op ops)
  have step: "\<And>k r. apply_request_op requests op k = Some r \<Longrightarrow> request_ok r"
    using Cons.prems(1) request_ok_step by blast
  from Cons.prems(2) have "run_request_ops (apply_request_op requests op) ops k = Some r"
    by (simp add: run_request_ops_def)
  with Cons.IH step show ?case by blast
qed

lemma key_step:
  assumes "\<And>k r. requests k = Some r \<Longrightarrow> id_req r = k"
    and "apply_request_op requests op k = Some r"
  shows "id_req r = k"
proof (cases op)
  case (Create d now isoNow)
  with assms show ?thesis
    by (auto simp: post_class_request_eq split: if_splits)
next
  case (Join i p)
  with assms show ?thesis
    by (auto simp: join_table split: option.splits if_splits)
next
  case (Delete i creator)
  with assms show ?thesis
    by (auto simp: delete_table split: option.splits if_splits)
qed

lemma key_run:
  assumes "\<And>k r. requests k = Some r \<Longrightarrow> id_req r = k"
    and "run_request_ops requests ops k = Some r"
  shows "id_req r = k"
  using assms
proof (induction ops arbitrary: requests k r)
  case Nil
  then show ?case by (simp add: run_request_ops_def)
next
  case (Cons op ops)
  have step: "\<And>k r. apply_request_op requests op k = Some r \<Longrightarrow> id_req r = k"
    using Cons.prems(1) key_step by blast
  from Cons.prems(2) have "run_request_ops (apply_request_op requests op) ops k = Some r"
    by (simp add: run_request_ops_def)
  with Cons.IH step show ?case by blast
qed

text \<open>
  A run of four requests and the table it leaves.
\<close>

lemma example_run:
  "run_request_ops Map.empty example_ops ''1700000000000'' = Some example_joined"
  by (simp add: run_request_ops_def example_ops_def post_class_request_eq join_table
      delete_table toString_example example_joined_def example_created_def
      example_body_def example_joiner_def creator_participant_def)

text \<open>
  C4. In every table reached from the empty table by a sequence of create, join and
  delete requests, every stored record has participantCount equal to the length of
  participants, lists the participant built from its creator fields, and has no two
  participants with one studentId. A record is created with exactly that participant
  and participantCount 1.
\<close>

theorem class_request_invariant:
  "(run_request_ops Map.empty ops k = Some r \<longrightarrow>
      participantCount r = length (participants r)
      \<and> creator_participant r \<in> set (participants r)
      \<and> distinct (map studentId (participants r)))
   \<and> (\<exists>r'. fst (post_class_request requests now isoNow d) = Ok 201 r'
         \<and> participants r' = [creator_participant r'] \<and> participantCount r' = 1
         \<and> creator_participant r' = creator_participant d)"
proof (intro conjI impI)
  assume run: "run_request_ops Map.empty ops k = Some r"
  have "request_ok r"
    by (rule request_ok_run [OF _ run]) simp
  then show "participantCount r = length (participants r)"
    and "creator_participant r \<in> set (participants r)"
    and "distinct (map studentId (participants r))"
    by (simp_all add: request_ok_def)
next
  show "\<exists>r'. fst (post_class_request requests now isoNow d) = Ok 201 r'
         \<and> participants r' = [creator_participant r'] \<and> participantCount r' = 1
         \<and> creator_participant r' = creator_participant d"
    by (simp add: post_class_request_eq creator_participant_def)
qed

text \<open>
  The theorem at a run that creates a request, lets carol join, refuses her second join and
  refuses her deletion.
\<close>

theorem class_request_invariant_witness:
  "run_request_ops Map.empty example_ops ''1700000000000'' = Some example_joined
   \<and> participantCount example_joined = 2
   \<and> length (participants example_joined) = 2
   \<and> creator_participant example_joined \<in> set (participants example_joined)
   \<and> distinct (map studentId (participants example_joined))"
proof -
  have two: "participantCount example_joined = 2"
    by (simp add: example_joined_def)
  from class_request_invariant [of example_ops "''1700000000000''" example_joined]
    example_run two
  show ?thesis by simp
qed

text \<open>
  C10. In every table reached from the empty table by a sequence of create, join and
  delete requests, every record is stored under its own id.
\<close>

theorem request_table_key_coherence:
  "run_request_ops Map.empty ops k = Some r \<Longrightarrow> id_req r = k"
  by (rule key_run [of Map.empty ops k r]) simp_all

text \<open>
  The theorem at the same run.
\<close>

theorem request_table_key_coherence_witness:
  "run_request_ops Map.empty example_ops ''1700000000000'' = Some example_joined
   \<and> id_req example_joined = ''1700000000000''"
  using request_table_key_coherence [OF example_run] example_run by simp

text \<open>
  For an id that does not name a member of \<^verbatim>\<open>Object.prototype\<close>, joining and deleting
  answer as the specification says: 404 for an id that is not in the table, 400 for a
  studentId that has joined and 403 for a requester who is not the creator, each
  leaving the table as it was; otherwise the participant is appended and counted, or
  the record removed. Joining with the creator's studentId right after the creation
  answers 400.
\<close>

lemma post_class_request_join_regular:
  assumes "i \<notin> set object_prototype_names"
  shows "(requests i = None \<longrightarrow>
      post_class_request_join requests i p = (Err 404 ''Class request not found'', requests))
   \<and> (\<forall>r. requests i = Some r \<and> studentId p \<in> studentId ` set (participants r) \<longrightarrow>
      post_class_request_join requests i p
        = (Err 400 ''You have already joined this class request'', requests))
   \<and> (\<forall>r. requests i = Some r \<and> studentId p \<notin> studentId ` set (participants r) \<longrightarrow>
      post_class_request_join requests i p
        = (Ok 200 (r\<lparr>participants := participants r @ [p],
                    participantCount := length (participants r @ [p])\<rparr>),
           requests(i \<mapsto> r\<lparr>participants := participants r @ [p],
                    participantCount := length (participants r @ [p])\<rparr>)))"
  using assms by (simp add: join_eq get_prop_None)

lemma post_class_request_join_creator:
  "studentId p = creatorStudentId d \<Longrightarrow>
   post_class_request_join (snd (post_class_request requests now isoNow d)) (toString now) p
     = (Err 400 ''You have already joined this class request'',
        snd (post_class_request requests now isoNow d))"
  by (simp add: join_eq post_class_request_eq creator_participant_def)

lemma delete_class_request_regular:
  assumes "i \<notin> set object_prototype_names"
  shows "(requests i = None \<longrightarrow>
      delete_class_request requests i creator = (Err 404 ''Class request not found'', requests))
   \<and> (\<forall>r. requests i = Some r \<and> creatorName r \<noteq> creator \<longrightarrow>
      delete_class_request requests i creator
        = (Err 403 ''You can only delete your own class requests'', requests))
   \<and> (\<forall>r. requests i = Some r \<and> creatorName r = creator \<longrightarrow>
      delete_class_request requests i creator = (Ok 200 (), requests(i := None)))"
  using assms by (simp add: delete_class_request_def get_prop_None)

text \<open>
  C7. The specification wants 404 for every id that is not in the table. The id
  \<^verbatim>\<open>constructor\<close> is not in the table, yet \<^verbatim>\<open>requests[id]\<close> finds the member inherited from
  \<^verbatim>\<open>Object.prototype\<close>, the test of line 168 passes and line 173 throws a \<^verbatim>\<open>TypeError\<close>:
  Express answers 500, not 404. An absent id of any other kind is answered 404.
\<close>

theorem post_class_request_join_inherited_id:
  "example_table ''constructor'' = None
   \<and> post_class_request_join example_table ''constructor'' example_joiner
       = (Uncaught TypeError, example_table)
   \<and> post_class_request_join example_table ''1700000000001'' example_joiner
       = (Err 404 ''Class request not found'', example_table)"
  by (simp add: join_eq get_prop_def object_prototype_names_def example_table_def)

text \<open>
  C8. The specification wants 404 for every id that is not in the table. The id
  \<^verbatim>\<open>constructor\<close> is not in the table, yet \<^verbatim>\<open>requests[id]\<close> finds the member inherited from
  \<^verbatim>\<open>Object.prototype\<close>, the test of line 140 passes, and the member's missing
  \<^verbatim>\<open>creatorName\<close> differs from the requester: the answer is 403, not 404. An absent id
  of any other kind is answered 404.
\<close>

theorem delete_class_request_inherited_id:
  "example_table ''constructor'' = None
   \<and> delete_class_request example_table ''constructor'' ''bob''
       = (Err 403 ''You can only delete your own class requests'', example_table)
   \<and> delete_class_request example_table ''1700000000001'' ''bob''
       = (Err 404 ''Class request not found'', example_table)"
  by (simp add: delete_class_request_def get_prop_def object_prototype_names_def
      example_table_def)

text \<open>
  C3. The id of a class request is the clock reading alone. Two creations at one clock
  reading get one id, and the second record replaces the first in the table.
\<close>

theorem post_class_request_same_millisecond:
  "fst (post_class_request Map.empty 1700000000000 ''2023-11-14T22:13:20.000Z'' example_body)
     = Ok 201 example_created
   \<and> snd (post_class_request Map.empty 1700000000000 ''2023-11-14T22:13:20.000Z'' example_body)
     = example_table
   \<and> fst (post_class_request example_table 1700000000000 ''2023-11-14T22:13:20.000Z'' example_body2)
     = Ok 201 example_created2
   \<and> id_req example_created2 = id_req example_created
   \<and> snd (post_class_request example_table 1700000000000 ''2023-11-14T22:13:20.000Z'' example_body2)
     = Map.empty(''1700000000000'' \<mapsto> example_created2)
   \<and> example_created2 \<noteq> example_created"
  by (simp add: post_class_request_eq toString_example example_table_def example_created_def
      example_created2_def example_body_def example_body2_def creator_participant_def)

section \<open>Room registry: a socket that joins a second room\<close>

text \<open>
  C2. The specification wants a connection in at most one room: joining a second room
  takes the connection out of the first. The handler of \<^verbatim>\<open>join_room\<close> only adds. After one
  socket joins room A and then room B it is recorded in both rooms, by \<open>activeRooms\<close> and
  by Socket.IO, and after it disconnects \<open>activeRooms\<close> still lists it in room A, since
  the handler of \<^verbatim>\<open>disconnect\<close> cleans \<^verbatim>\<open>socket.currentRoom\<close> only.
\<close>

theorem join_room_second_room_keeps_first:
  "(case join_room example_disk ''s1'' ''A'' (connection ''s1'' registry_init) of
      Inl e \<Rightarrow> False
    | Inr (historyA, stA) \<Rightarrow>
        (case join_room example_disk ''s1'' ''B'' stA of
           Inl e \<Rightarrow> False
         | Inr (historyB, st) \<Rightarrow>
             ''s1'' \<in> membersOf st ''A'' \<and> ''s1'' \<in> membersOf st ''B''
             \<and> ''s1'' \<in> rooms_io st ''A'' \<and> ''s1'' \<in> rooms_io st ''B''
             \<and> currentRoom st ''s1'' = Some ''B''
             \<and> (case disconnect ''s1'' st of
                   Inl e \<Rightarrow> False
                 | Inr st' \<Rightarrow> membersOf st' ''A'' = {''s1''} \<and> membersOf st' ''B'' = {})))"
  by (simp add: join_room_def disconnect_def connection_def membersOf_def registry_init_def
      get_prop_def object_prototype_names_def example_loads Let_def)

text \<open>
  A room that names a member of \<^verbatim>\<open>Object.prototype\<close>: the handler of \<^verbatim>\<open>join_room\<close> throws and
  the process ends.
\<close>

lemma join_room_inherited_room:
  "join_room example_disk ''s1'' ''constructor'' (connection ''s1'' registry_init) = Inl TypeError"
  by (simp add: join_room_def connection_def registry_init_def get_prop_def
      object_prototype_names_def Let_def)

end
